theory Spec2Isabelle
  imports Complex_Main
begin

section \<open>Python strings\<close>

text \<open>
  Strings are lists of characters. The functions below are the built-in string
  operations the program calls, written out for ASCII text:
  \<^verbatim>\<open>sub in s\<close>, \<^verbatim>\<open>s.replace(old, new)\<close>, \<^verbatim>\<open>s.split(sep)\<close> with a one-character
  separator, \<^verbatim>\<open>str(i)\<close> and \<^verbatim>\<open>int(s)\<close>.
\<close>

fun startswith :: "string \<Rightarrow> string \<Rightarrow> bool" where
  "startswith s [] = True"
| "startswith [] (p # ps) = False"
| "startswith (c # cs) (p # ps) = (c = p \<and> startswith cs ps)"

text \<open>\<^verbatim>\<open>sub in s\<close>: \<open>sub\<close> occurs in \<open>s\<close> as a contiguous run.\<close>

fun py_in :: "string \<Rightarrow> string \<Rightarrow> bool" where
  "py_in sub [] = (sub = [])"
| "py_in sub (c # cs) = (startswith (c # cs) sub \<or> py_in sub cs)"

text \<open>
  \<^verbatim>\<open>s.replace(old, new)\<close> without a count: every occurrence of \<open>old\<close>, found from
  left to right without overlap, is replaced. With an empty \<open>old\<close> Python puts
  \<open>new\<close> before every character and at the end.
\<close>

function py_replace :: "string \<Rightarrow> string \<Rightarrow> string \<Rightarrow> string" where
  "py_replace old new s =
     (if old = [] then new @ concat (map (\<lambda>c. c # new) s)
      else (case s of
              [] \<Rightarrow> []
            | c # cs \<Rightarrow>
                if startswith s old then new @ py_replace old new (drop (length old) s)
                else c # py_replace old new cs))"
  by pat_completeness auto
termination
  by (relation "measure (\<lambda>(old, new, s). length s)") auto

declare py_replace.simps [simp del]

text \<open>\<^verbatim>\<open>s.split(sep)\<close> for a separator of one character; the result is never empty.\<close>

fun py_split :: "char \<Rightarrow> string \<Rightarrow> string list" where
  "py_split sep [] = [[]]"
| "py_split sep (c # cs) =
     (if c = sep then [] # py_split sep cs
      else (case py_split sep cs of
              [] \<Rightarrow> [[c]]
            | w # ws \<Rightarrow> (c # w) # ws))"

text \<open>\<^verbatim>\<open>str(i)\<close> for an integer: decimal digits, with a minus sign when negative.\<close>

definition digit_char :: "nat \<Rightarrow> char" where
  "digit_char d = ''0123456789'' ! d"

function digits_of :: "nat \<Rightarrow> string" where
  "digits_of n = (if n < 10 then [digit_char n] else digits_of (n div 10) @ [digit_char (n mod 10)])"
  by pat_completeness auto
termination
  by (relation "measure id") auto

declare digits_of.simps [simp del]

definition py_str :: "int \<Rightarrow> string" where
  "py_str i = (if i < 0 then CHR ''-'' # digits_of (nat (- i)) else digits_of (nat i))"

datatype py_error = IndexError | ValueError | TypeError | UnboundLocalError | RuntimeError

text \<open>
  \<^verbatim>\<open>int(s)\<close> in base ten: surrounding white space is dropped, one sign may
  come first, then digits, where single underscores may stand between digits.
  Anything else raises ValueError. (The interpreter's limit on the number of
  digits is left out: a vertex number is far below it.)
\<close>

definition is_space :: "char \<Rightarrow> bool" where
  "is_space c = (c \<in> set [CHR 0x09, CHR 0x0A, CHR 0x0B, CHR 0x0C, CHR 0x0D,
                           CHR 0x1C, CHR 0x1D, CHR 0x1E, CHR 0x1F, CHR 0x20])"

definition py_strip :: "string \<Rightarrow> string" where
  "py_strip s = rev (dropWhile is_space (rev (dropWhile is_space s)))"

fun index_of :: "char \<Rightarrow> string \<Rightarrow> nat option" where
  "index_of c [] = None"
| "index_of c (d # ds) = (if c = d then Some 0 else map_option Suc (index_of c ds))"

definition digit_val :: "char \<Rightarrow> nat option" where
  "digit_val c = index_of c ''0123456789''"

fun int_digits :: "nat \<Rightarrow> string \<Rightarrow> nat option" where
  "int_digits acc [] = Some acc"
| "int_digits acc [c] = map_option (\<lambda>v. 10 * acc + v) (digit_val c)"
| "int_digits acc (c # d # ds) =
     (if c = CHR ''_'' then
        (case digit_val d of None \<Rightarrow> None | Some v \<Rightarrow> int_digits (10 * acc + v) ds)
      else
        (case digit_val c of None \<Rightarrow> None | Some v \<Rightarrow> int_digits (10 * acc + v) (d # ds)))"

definition nat_literal :: "string \<Rightarrow> nat option" where
  "nat_literal s =
     (case s of
        [] \<Rightarrow> None
      | c # cs \<Rightarrow> (case digit_val c of None \<Rightarrow> None | Some v \<Rightarrow> int_digits v cs))"

definition py_int :: "string \<Rightarrow> py_error + int" where
  "py_int s =
     (case py_strip s of
        [] \<Rightarrow> Inl ValueError
      | c # cs \<Rightarrow>
          if c = CHR ''-'' then
            (case nat_literal cs of None \<Rightarrow> Inl ValueError | Some n \<Rightarrow> Inr (- int n))
          else if c = CHR ''+'' then
            (case nat_literal cs of None \<Rightarrow> Inl ValueError | Some n \<Rightarrow> Inr (int n))
          else
            (case nat_literal (c # cs) of None \<Rightarrow> Inl ValueError | Some n \<Rightarrow> Inr (int n)))"

section \<open>Host calls, their answers and runs\<close>

text \<open>
  Every operation of the program is a call into the host application. A call is
  recorded as the command's name, its positional arguments and its keyword
  arguments, in the order the source writes them. A run of a function is its
  outcome (the returned value or the exception raised) and the sequence of host
  calls it made, each with the answer it got.
\<close>

datatype arg = S string | I int | B bool

datatype host_call = Cmd string "arg list" "(string \<times> arg) list"

datatype resp =
    Raised py_error
  | Returned
  | Str string
  | Strs "string list"
  | NoneOrStrs "string list option"
  | Ints "int list"
  | Reals "real list"
  | Bool bool

type_synonym event = "host_call \<times> resp"

type_synonym 'a run = "(py_error + 'a) \<times> event list"

text \<open>
  The host's answers. A command whose result the program never reads either
  returns or raises (\<open>command\<close>); a query answers with a value of the type the
  host documents for it, or raises. World positions are lists of coordinates;
  the host's doubles are taken as real numbers, the program only compares them.
\<close>

record host =
  command :: "host_call \<Rightarrow> py_error option"
  file_import :: "string \<Rightarrow> py_error + string list"
  nodeType :: "string \<Rightarrow> py_error + string"
  listRelatives :: "string \<Rightarrow> py_error + string list option"
  getConnectedVertices :: "string \<Rightarrow> int \<Rightarrow> py_error + int list"
  xform :: "string \<Rightarrow> py_error + real list"
  ls_selection :: "py_error + string list"
  objExists :: "string \<Rightarrow> bool"
  isdir :: "string \<Rightarrow> bool"
  getExistingDirectory :: "string"

definition run_ret :: "'a \<Rightarrow> 'a run" where
  "run_ret a = (Inr a, [])"

definition run_bind :: "'a run \<Rightarrow> ('a \<Rightarrow> 'b run) \<Rightarrow> 'b run" where
  "run_bind m f =
     (case m of
        (Inl e, tr) \<Rightarrow> (Inl e, tr)
      | (Inr a, tr) \<Rightarrow> (case f a of (r, tr') \<Rightarrow> (r, tr @ tr')))"

definition exec :: "host \<Rightarrow> host_call \<Rightarrow> unit run" where
  "exec h c =
     (case command h c of
        Some e \<Rightarrow> (Inl e, [(c, Raised e)])
      | None \<Rightarrow> (Inr (), [(c, Returned)]))"

definition query :: "host_call \<Rightarrow> ('a \<Rightarrow> resp) \<Rightarrow> py_error + 'a \<Rightarrow> 'a run" where
  "query c wrap r =
     (case r of
        Inl e \<Rightarrow> (Inl e, [(c, Raised e)])
      | Inr a \<Rightarrow> (Inr a, [(c, wrap a)]))"

definition calls :: "'a run \<Rightarrow> host_call list" where
  "calls r = map fst (snd r)"

definition responses :: "'a run \<Rightarrow> resp list" where
  "responses r = map snd (snd r)"

section \<open>core.py\<close>

subsection \<open>create_mirrored_mesh\<close>

definition new_name_of :: "string \<Rightarrow> string" where
  "new_name_of mesh =
     (if py_in ''_l_'' mesh then py_replace ''_l_'' ''_r_'' mesh
      else py_replace ''_r_'' ''_l_'' mesh)"

definition create_mirrored_mesh :: "host \<Rightarrow> string \<Rightarrow> string \<Rightarrow> string run" where
  "create_mirrored_mesh h mesh mirror_axis =
     (let new_name = new_name_of mesh in
      run_bind (exec h (Cmd ''duplicate'' [S mesh] [(''name'', S new_name)])) (\<lambda>_.
      run_bind (exec h (Cmd ''setAttr'' [S (new_name @ ''.s'' @ mirror_axis), I (- 1)] [])) (\<lambda>_.
      run_bind (exec h (Cmd ''makeIdentity'' [S new_name]
                  [(''apply'', B True), (''scale'', B True),
                   (''normal'', I 0), (''preserveNormals'', B True)])) (\<lambda>_.
      run_ret new_name))))"

subsection \<open>import_src_mesh\<close>

text \<open>The loop over the new nodes: \<open>mesh_name\<close> starts as the empty string.\<close>

fun first_transform :: "host \<Rightarrow> string list \<Rightarrow> string run" where
  "first_transform h [] = run_ret ''''"
| "first_transform h (each # rest) =
     run_bind (query (Cmd ''nodeType'' [S each] []) Str (nodeType h each)) (\<lambda>t.
       if t = ''transform'' then run_ret each else first_transform h rest)"

definition import_call :: "string \<Rightarrow> host_call" where
  "import_call file_path =
     Cmd ''file'' [S file_path]
       [(''i'', B True), (''force'', B True), (''groupReference'', B False),
        (''mergeNamespacesOnClash'', B True), (''removeDuplicateNetworks'', B True),
        (''returnNewNodes'', B True)]"

definition import_src_mesh :: "host \<Rightarrow> string \<Rightarrow> string run" where
  "import_src_mesh h file_path =
     run_bind (query (import_call file_path) Strs (file_import h file_path)) (\<lambda>nodes.
       first_transform h nodes)"

subsection \<open>src_verts\<close>

text \<open>\<^verbatim>\<open>xs[i]\<close> for \<open>i \<ge> 0\<close>: out of range raises IndexError.\<close>

definition py_nth :: "'a list \<Rightarrow> nat \<Rightarrow> py_error + 'a" where
  "py_nth xs i = (if i < length xs then Inr (xs ! i) else Inl IndexError)"

definition lift :: "py_error + 'a \<Rightarrow> 'a run" where
  "lift r = (r, [])"

text \<open>An effect that cannot raise: \<^verbatim>\<open>print\<close> and the logger.\<close>

definition emit :: "host_call \<Rightarrow> unit run" where
  "emit c = (Inr (), [(c, Returned)])"

definition xform_call :: "string \<Rightarrow> host_call" where
  "xform_call full_name =
     Cmd ''xform'' [S full_name]
       [(''query'', B True), (''translation'', B True), (''worldSpace'', B True)]"

text \<open>The first loop: the world position of every vertex connected to the central one.\<close>

fun vert_positions :: "host \<Rightarrow> string \<Rightarrow> int \<Rightarrow> int list \<Rightarrow> real list list run" where
  "vert_positions h central_vert vert_num [] = run_ret []"
| "vert_positions h central_vert vert_num (each # rest) =
     run_bind (query (xform_call (py_replace (py_str vert_num) (py_str each) central_vert)) Reals
                 (xform h (py_replace (py_str vert_num) (py_str each) central_vert))) (\<lambda>pos.
     run_bind (vert_positions h central_vert vert_num rest) (\<lambda>ps.
     run_ret (pos # ps)))"

text \<open>The variables of the second loop.\<close>

record extrema =
  up_check :: real
  up_vert :: int
  side_check_hi :: real
  side_check_lo :: real
  side_vert_src :: int
  side_vert_dest :: int

fun scan_verts :: "extrema \<Rightarrow> (int \<times> real list) list \<Rightarrow> py_error + extrema" where
  "scan_verts st [] = Inr st"
| "scan_verts st ((v, pos) # rest) =
     (case py_nth pos 1 of
        Inl e \<Rightarrow> Inl e
      | Inr y \<Rightarrow>
          (let st1 = (if y > up_check st then st\<lparr>up_check := y, up_vert := v\<rparr> else st) in
           case py_nth pos 0 of
             Inl e \<Rightarrow> Inl e
           | Inr x \<Rightarrow>
               if x > side_check_hi st1 then
                 scan_verts (st1\<lparr>side_check_hi := x, side_vert_src := v\<rparr>) rest
               else if x < side_check_lo st1 then
                 scan_verts (st1\<lparr>side_check_lo := x, side_vert_dest := v\<rparr>) rest
               else scan_verts st1 rest))"

definition pick_verts :: "int \<Rightarrow> int list \<Rightarrow> real list list \<Rightarrow> py_error + int list list" where
  "pick_verts vert_num vert_ids positions =
     (case py_nth positions 0 of
        Inl e \<Rightarrow> Inl e
      | Inr p0 \<Rightarrow>
     (case py_nth p0 1 of
        Inl e \<Rightarrow> Inl e
      | Inr y0 \<Rightarrow>
     (case py_nth vert_ids 0 of
        Inl e \<Rightarrow> Inl e
      | Inr v0 \<Rightarrow>
     (case py_nth p0 0 of
        Inl e \<Rightarrow> Inl e
      | Inr x0 \<Rightarrow>
     (case scan_verts \<lparr>up_check = y0, up_vert = v0, side_check_hi = x0, side_check_lo = x0,
                        side_vert_src = 0, side_vert_dest = 0\<rparr> (zip vert_ids positions) of
        Inl e \<Rightarrow> Inl e
      | Inr st \<Rightarrow>
          Inr [[vert_num, up_vert st, side_vert_src st],
               [vert_num, up_vert st, side_vert_dest st]])))))"

text \<open>
  The vertex iterator of the host's object API is built by five calls in a row:
  the selection list takes the shape, gives its node, the iterator is made on it
  and set to the vertex, and then answers with the connected vertices.
\<close>

definition connected_vertices :: "host \<Rightarrow> string \<Rightarrow> int \<Rightarrow> int list run" where
  "connected_vertices h shape vert_num =
     run_bind (exec h (Cmd ''MSelectionList.add'' [S shape] [])) (\<lambda>_.
     run_bind (exec h (Cmd ''MSelectionList.getDependNode'' [I 0] [])) (\<lambda>_.
     run_bind (exec h (Cmd ''MItMeshVertex'' [S shape] [])) (\<lambda>_.
     run_bind (exec h (Cmd ''MItMeshVertex.setIndex'' [I vert_num] [])) (\<lambda>_.
     query (Cmd ''MItMeshVertex.getConnectedVertices'' [] []) Ints
       (getConnectedVertices h shape vert_num)))))"

definition first_shape :: "string list option \<Rightarrow> py_error + string" where
  "first_shape r = (case r of None \<Rightarrow> Inl TypeError | Some shapes \<Rightarrow> py_nth shapes 0)"

definition vert_num_of :: "string \<Rightarrow> py_error + int" where
  "vert_num_of central_vert =
     py_int (hd (py_split CHR '']''
       (last (py_split CHR ''[''
         (last (py_split CHR ''.'' central_vert))))))"

definition src_verts :: "host \<Rightarrow> string \<Rightarrow> string \<Rightarrow> int list list run" where
  "src_verts h central_vert mirror_axis =
     (let mesh = hd (py_split CHR ''.'' central_vert) in
      run_bind (query (Cmd ''listRelatives'' [S mesh] [(''shapes'', B True)]) NoneOrStrs
                  (listRelatives h mesh)) (\<lambda>rel.
      run_bind (lift (first_shape rel)) (\<lambda>shape.
      run_bind (lift (vert_num_of central_vert)) (\<lambda>vert_num.
      run_bind (connected_vertices h shape vert_num) (\<lambda>vert_ids.
      run_bind (vert_positions h central_vert vert_num vert_ids) (\<lambda>positions.
      lift (pick_verts vert_num vert_ids positions)))))))"

subsection \<open>transfer_vert_order\<close>

definition vtx_name :: "string \<Rightarrow> int \<Rightarrow> string" where
  "vtx_name mesh each = mesh @ ''.vtx['' @ py_str each @ '']''"

definition transfer_vert_order :: "host \<Rightarrow> string \<Rightarrow> string \<Rightarrow> int list list \<Rightarrow> unit run" where
  "transfer_vert_order h src_mesh dest_mesh vertex_ids =
     run_bind (lift (py_nth vertex_ids 0)) (\<lambda>ids0.
     run_bind (lift (py_nth vertex_ids 1)) (\<lambda>ids1.
     (let src_verts = map (vtx_name src_mesh) ids0;
          dest_verts = map (vtx_name dest_mesh) ids1 in
      run_bind (lift (py_nth src_verts 0)) (\<lambda>s0.
      run_bind (lift (py_nth src_verts 1)) (\<lambda>s1.
      run_bind (lift (py_nth src_verts 2)) (\<lambda>s2.
      run_bind (lift (py_nth dest_verts 0)) (\<lambda>d0.
      run_bind (lift (py_nth dest_verts 1)) (\<lambda>d1.
      run_bind (lift (py_nth dest_verts 2)) (\<lambda>d2.
      run_bind (exec h (Cmd ''meshRemap'' [S s0, S s1, S s2, S d0, S d1, S d2] [])) (\<lambda>_.
      run_bind (exec h (Cmd ''select'' [S dest_mesh] [(''replace'', B True)])) (\<lambda>_.
      run_bind (exec h (Cmd ''polyNormalPerVertex'' [] [(''freezeNormal'', B False)])) (\<lambda>_.
      run_bind (exec h (Cmd ''select'' [] [(''deselect'', B True)])) (\<lambda>_.
      exec h (Cmd ''delete'' [S dest_mesh] [(''constructionHistory'', B True)]))))))))))))))"

subsection \<open>export_dest_mesh\<close>

definition export_call :: "string \<Rightarrow> host_call" where
  "export_call file_path =
     Cmd ''file'' [S file_path]
       [(''type'', S ''OBJexport''), (''force'', B True), (''exportSelected'', B True),
        (''preserveReferences'', B True), (''constructionHistory'', B False),
        (''options'', S ''groups=1;ptgroups=1;materials=0;smoothing=1;normals=1;'')]"

definition export_dest_mesh :: "host \<Rightarrow> string \<Rightarrow> string \<Rightarrow> unit run" where
  "export_dest_mesh h mesh file_path =
     run_bind (exec h (Cmd ''select'' [S mesh] [(''replace'', B True)])) (\<lambda>_.
     run_bind (emit (Cmd ''print'' [S file_path] [])) (\<lambda>_.
     run_bind (exec h (export_call file_path)) (\<lambda>_.
     exec h (Cmd ''select'' [] [(''deselect'', B True)]))))"

section \<open>view.py: MirrorBlendShapeTool.build\<close>

text \<open>The widgets and the attribute of the tool that \<open>build\<close> can read or write.\<close>

record gui =
  vert_textfield :: string
  mirror_axis_cbox :: string
  export_cbox :: bool
  file_path_line :: string
  directory_path :: string

definition ls_call :: host_call where
  "ls_call = Cmd ''ls'' [] [(''selection'', B True), (''flatten'', B True)]"

definition no_vertex_msg :: string where
  "no_vertex_msg =
     ''No single vertex specified in textfield, nor single vertex selected in scene.''"

definition not_exists_msg :: string where
  "not_exists_msg =
     ''String in textfield is a vertex that does not exist. Check if there's quotes in textfield.''"

text \<open>
  The first statement of \<open>build\<close>. It may leave the local variables
  \<open>central_vert\<close> and \<open>mesh\<close> unbound, which is \<open>None\<close> here.
\<close>

definition build_target :: "host \<Rightarrow> gui \<Rightarrow> (string option \<times> string option) run" where
  "build_target h g =
     (if vert_textfield g = '''' then
        run_bind (query ls_call Strs (ls_selection h)) (\<lambda>sel.
        run_bind (lift (py_nth sel 0)) (\<lambda>first.
          if first \<noteq> '''' then
            run_bind (query ls_call Strs (ls_selection h)) (\<lambda>sel2.
            run_bind (lift (py_nth sel2 0)) (\<lambda>central_vert.
            run_ret (Some central_vert, Some (hd (py_split CHR ''.'' central_vert)))))
          else
            run_bind (emit (Cmd ''LOG.error'' [S no_vertex_msg] [])) (\<lambda>_.
            run_ret (None, None))))
      else
        run_bind (query (Cmd ''objExists'' [S (vert_textfield g)] []) Bool
                    (Inr (objExists h (vert_textfield g)))) (\<lambda>ex.
          if ex = False then
            run_bind (emit (Cmd ''LOG.error'' [S not_exists_msg] [])) (\<lambda>_.
            run_ret (None, None))
          else
            run_ret (Some (vert_textfield g),
                     Some (hd (py_split CHR ''.'' (vert_textfield g))))))"

text \<open>Reading a local variable that was never bound raises UnboundLocalError.\<close>

definition local_var :: "'a option \<Rightarrow> py_error + 'a" where
  "local_var v = (case v of None \<Rightarrow> Inl UnboundLocalError | Some a \<Rightarrow> Inr a)"

text \<open>
  Duplicate, find the vertices, transfer the vertex order. Both
  \<open>create_mirrored_mesh\<close> and \<open>src_verts\<close> are called without a mirror axis,
  so with their default \<open>''x''\<close>.
\<close>

definition build_mirror :: "host \<Rightarrow> string option \<times> string option \<Rightarrow> string run" where
  "build_mirror h vars =
     (case vars of (central_vert, mesh) \<Rightarrow>
      run_bind (lift (local_var mesh)) (\<lambda>m.
      run_bind (create_mirrored_mesh h m ''x'') (\<lambda>new_mesh.
      run_bind (lift (local_var central_vert)) (\<lambda>cv.
      run_bind (src_verts h cv ''x'') (\<lambda>needed_verts.
      run_bind (transfer_vert_order h m new_mesh needed_verts) (\<lambda>_.
      run_ret new_mesh))))))"

definition build_export :: "host \<Rightarrow> gui \<Rightarrow> string \<Rightarrow> unit run \<times> gui" where
  "build_export h g new_mesh =
     (if export_cbox g then
        (let d = file_path_line g;
             asked = (Cmd ''os.path.isdir'' [S d] [], Bool (isdir h d)) in
         if isdir h d then
           (case export_dest_mesh h new_mesh (d @ ''/'' @ new_mesh) of
              (r, tr) \<Rightarrow> ((r, asked # tr), g\<lparr>directory_path := d\<rparr>))
         else
           (let d' = getExistingDirectory h;
                browsed = (Cmd ''QFileDialog.getExistingDirectory'' []
                             [(''caption'', S ''Choose Directory''), (''options'', S ''ShowDirsOnly'')],
                           Str d') in
            case export_dest_mesh h new_mesh (d' @ ''/'' @ new_mesh) of
              (r, tr) \<Rightarrow> ((r, asked # browsed # tr), g\<lparr>directory_path := d'\<rparr>)))
      else ((Inr (), []), g))"

definition build :: "host \<Rightarrow> gui \<Rightarrow> unit run \<times> gui" where
  "build h g =
     (case run_bind (build_target h g) (build_mirror h) of
        (Inl e, tr) \<Rightarrow> ((Inl e, tr), g)
      | (Inr new_mesh, tr) \<Rightarrow>
          (case build_export h g new_mesh of
             ((r, tr'), g') \<Rightarrow> ((r, tr @ tr'), g')))"

section \<open>The scene of the host\<close>

text \<open>
  What a host call does to the scene is the host's business, not the
  program's. A scene model gives the effect of every call on a scene, the
  active list (the selection) of a scene, and the state of every mesh in it
  (its geometry and whether it carries construction history); meshes are
  identified by their names.
\<close>

record ('s, 'm) scene_model =
  effect :: "host_call \<Rightarrow> 's \<Rightarrow> 's"
  active_list :: "'s \<Rightarrow> string list"
  mesh_state :: "'s \<Rightarrow> string \<Rightarrow> 'm"
  has_history :: "'m \<Rightarrow> bool"

definition scene_after :: "('s, 'm) scene_model \<Rightarrow> host_call list \<Rightarrow> 's \<Rightarrow> 's" where
  "scene_after M cs s = fold (effect M) cs s"

definition select_replace :: "string \<Rightarrow> host_call" where
  "select_replace mesh = Cmd ''select'' [S mesh] [(''replace'', B True)]"

definition select_deselect :: host_call where
  "select_deselect = Cmd ''select'' [] [(''deselect'', B True)]"

definition unfreeze_normals :: host_call where
  "unfreeze_normals = Cmd ''polyNormalPerVertex'' [] [(''freezeNormal'', B False)]"

definition delete_history :: "string \<Rightarrow> host_call" where
  "delete_history mesh = Cmd ''delete'' [S mesh] [(''constructionHistory'', B True)]"

text \<open>
  The behaviour of the host's commands that the properties below rest on:
  selecting with \<open>replace\<close> makes the mesh the whole active list, selecting with
  \<open>deselect\<close> and no object empties it, and neither touches a mesh; un-freezing
  the normals works on the meshes of the active list only and keeps that list;
  deleting the construction history of a mesh leaves that mesh without history,
  touches no other mesh and adds nothing to the active list; printing and
  exporting a file keep the active list.
\<close>

definition selection_laws :: "('s, 'm) scene_model \<Rightarrow> bool" where
  "selection_laws M =
     ((\<forall>m s. active_list M (effect M (select_replace m) s) = [m]) \<and>
      (\<forall>s. active_list M (effect M select_deselect s) = []) \<and>
      (\<forall>p s. active_list M (effect M (Cmd ''print'' [S p] []) s) = active_list M s) \<and>
      (\<forall>p s. active_list M (effect M (export_call p) s) = active_list M s) \<and>
      (\<forall>s. active_list M (effect M unfreeze_normals s) = active_list M s) \<and>
      (\<forall>m s. set (active_list M (effect M (delete_history m) s)) \<subseteq> set (active_list M s)))"

definition frame_laws :: "('s, 'm) scene_model \<Rightarrow> bool" where
  "frame_laws M =
     ((\<forall>m n s. mesh_state M (effect M (select_replace m) s) n = mesh_state M s n) \<and>
      (\<forall>n s. mesh_state M (effect M select_deselect s) n = mesh_state M s n) \<and>
      (\<forall>n s. n \<notin> set (active_list M s) \<longrightarrow>
               mesh_state M (effect M unfreeze_normals s) n = mesh_state M s n) \<and>
      (\<forall>m n s. n \<noteq> m \<longrightarrow>
               mesh_state M (effect M (delete_history m) s) n = mesh_state M s n) \<and>
      (\<forall>m s. \<not> has_history M (mesh_state M (effect M (delete_history m) s) m)))"

text \<open>
  A small scene that obeys these laws: the active list, the meshes that carry
  construction history and the meshes whose normals have been un-frozen.
\<close>

record scene =
  selection :: "string list"
  with_history :: "string set"
  unfrozen :: "string set"

definition scene_effect :: "host_call \<Rightarrow> scene \<Rightarrow> scene" where
  "scene_effect c s =
     (case c of Cmd name args kwargs \<Rightarrow>
        if name = ''select'' \<and> kwargs = [(''replace'', B True)] then
          (case args of [S m] \<Rightarrow> s\<lparr>selection := [m]\<rparr> | _ \<Rightarrow> s)
        else if name = ''select'' \<and> kwargs = [(''deselect'', B True)] \<and> args = [] then
          s\<lparr>selection := []\<rparr>
        else if c = unfreeze_normals then
          s\<lparr>unfrozen := unfrozen s \<union> set (selection s)\<rparr>
        else if name = ''delete'' \<and> kwargs = [(''constructionHistory'', B True)] then
          (case args of [S m] \<Rightarrow> s\<lparr>with_history := with_history s - {m}\<rparr> | _ \<Rightarrow> s)
        else s)"

definition small_scene :: "(scene, bool \<times> bool) scene_model" where
  "small_scene =
     \<lparr>effect = scene_effect,
      active_list = selection,
      mesh_state = (\<lambda>s n. (n \<in> with_history s, n \<in> unfrozen s)),
      has_history = fst\<rparr>"

text \<open>A host that never raises, for the runs evaluated below.\<close>

definition quiet_host :: host where
  "quiet_host =
     \<lparr>command = (\<lambda>c. None),
      file_import = (\<lambda>p. Inr [''|obj|objShape'', ''|obj'', ''|obj2'']),
      nodeType = (\<lambda>n. Inr (if n = ''|obj|objShape'' then ''mesh'' else ''transform'')),
      listRelatives = (\<lambda>m. Inr (Some [m @ ''Shape''])),
      getConnectedVertices = (\<lambda>shape n. Inr [5, 7]),
      xform = (\<lambda>n. Inr (if n = ''m.vtx[5]'' then [2, 0, 0] else [1, 0, 0])),
      ls_selection = Inr [],
      objExists = (\<lambda>n. False),
      isdir = (\<lambda>d. True),
      getExistingDirectory = ''''\<rparr>"

section \<open>Two runs of one function\<close>

text \<open>
  Two runs are determined by the host's answers when, as soon as the
  sequences of answers they got agree as far as both go, they are the same run:
  the same outcome and the same calls.
\<close>

definition determined :: "'a run \<Rightarrow> 'a run \<Rightarrow> bool" where
  "determined r r' =
     (\<forall>x y. map snd (snd r) @ x = map snd (snd r') @ y \<longrightarrow> r = r')"

text \<open>A property of every call of a run.\<close>

fun cmd_name :: "host_call \<Rightarrow> string" where
  "cmd_name (Cmd name args kwargs) = name"

definition all_calls :: "(host_call \<Rightarrow> bool) \<Rightarrow> 'a run \<Rightarrow> bool" where
  "all_calls P r = (\<forall>c \<in> set (calls r). P c)"

text \<open>A host that differs from the quiet one on a node that is never asked about.\<close>

definition other_host :: host where
  "other_host =
     quiet_host\<lparr>nodeType := (\<lambda>n. if n = ''|obj2'' then Inl RuntimeError
                                 else nodeType quiet_host n),
                isdir := (\<lambda>d. False)\<rparr>"

section \<open>The wording of the specification\<close>

text \<open>
  Replacing the first occurrence only, as the specification words the renaming
  done by \<open>create_mirrored_mesh\<close>; compared with the program's renaming below.
\<close>

fun replace_first :: "string \<Rightarrow> string \<Rightarrow> string \<Rightarrow> string" where
  "replace_first old new [] = []"
| "replace_first old new (c # cs) =
     (if startswith (c # cs) old then new @ drop (length old) (c # cs)
      else c # replace_first old new cs)"

section \<open>Properties of the string operations\<close>

lemma py_replace_absent:
  "old \<noteq> [] \<Longrightarrow> \<not> py_in old s \<Longrightarrow> py_replace old new s = s"
proof (induction s)
  case Nil
  then show ?case by (simp add: py_replace.simps)
next
  case (Cons c cs)
  then show ?case by (subst py_replace.simps) simp
qed

section \<open>Runs\<close>

lemma fst_run_bind:
  "fst (run_bind m f) = (case fst m of Inl e \<Rightarrow> Inl e | Inr a \<Rightarrow> fst (f a))"
  by (simp add: run_bind_def split: prod.splits sum.splits)

lemma snd_run_bind:
  "snd (run_bind m f) = (case fst m of Inl e \<Rightarrow> snd m | Inr a \<Rightarrow> snd m @ snd (f a))"
  by (simp add: run_bind_def split: prod.splits sum.splits)

lemma run_bind_lift:
  "run_bind (lift r) f = (case r of Inl e \<Rightarrow> (Inl e, []) | Inr a \<Rightarrow> f a)"
  by (simp add: run_bind_def lift_def split: sum.splits prod.splits)

lemma exec_then_returns:
  assumes "fst (run_bind (exec h c) f) = Inr v"
  shows "fst (f ()) = Inr v \<and> calls (run_bind (exec h c) f) = c # calls (f ())"
  using assms
  by (auto simp: run_bind_def exec_def calls_def split: option.splits prod.splits)

lemma exec_returns:
  assumes "fst (exec h c) = Inr v"
  shows "calls (exec h c) = [c]"
  using assms by (auto simp: exec_def calls_def split: option.splits)

section \<open>create_mirrored_mesh\<close>

lemma create_mirrored_mesh_run:
  "create_mirrored_mesh h mesh axis =
     (let n = new_name_of mesh;
          c1 = Cmd ''duplicate'' [S mesh] [(''name'', S n)];
          c2 = Cmd ''setAttr'' [S (n @ ''.s'' @ axis), I (- 1)] [];
          c3 = Cmd ''makeIdentity'' [S n]
                 [(''apply'', B True), (''scale'', B True),
                  (''normal'', I 0), (''preserveNormals'', B True)] in
      case command h c1 of
        Some e \<Rightarrow> (Inl e, [(c1, Raised e)])
      | None \<Rightarrow>
          (case command h c2 of
             Some e \<Rightarrow> (Inl e, [(c1, Returned), (c2, Raised e)])
           | None \<Rightarrow>
               (case command h c3 of
                  Some e \<Rightarrow> (Inl e, [(c1, Returned), (c2, Returned), (c3, Raised e)])
                | None \<Rightarrow> (Inr n, [(c1, Returned), (c2, Returned), (c3, Returned)]))))"
  by (simp add: create_mirrored_mesh_def run_bind_def exec_def run_ret_def Let_def
           split: option.splits)

text \<open>
  Claim C3, as the program has it. For every mesh name and mirror axis the new
  name is the input name with every occurrence of \<open>_l_\<close> (taken from left to
  right, without overlap) replaced by \<open>_r_\<close> when \<open>_l_\<close> occurs in the name,
  and otherwise with every occurrence of \<open>_r_\<close> replaced by \<open>_l_\<close>. The first
  host call duplicates the mesh under the new name. Then either some host
  command raised and the function raises the same exception, or the function
  returns the new name after exactly three calls: the duplication, setting the
  new name's scale attribute along the given axis to \<open>-1\<close>, and freezing the
  scale transformation of the new name.
\<close>

theorem create_mirrored_mesh_renames_all:
  "(let n = (if py_in ''_l_'' mesh then py_replace ''_l_'' ''_r_'' mesh
             else py_replace ''_r_'' ''_l_'' mesh) in
    hd (calls (create_mirrored_mesh h mesh mirror_axis)) =
      Cmd ''duplicate'' [S mesh] [(''name'', S n)]
    \<and> ((\<exists>c e. command h c = Some e \<and> fst (create_mirrored_mesh h mesh mirror_axis) = Inl e)
       \<or> (fst (create_mirrored_mesh h mesh mirror_axis) = Inr n
          \<and> calls (create_mirrored_mesh h mesh mirror_axis) =
              [Cmd ''duplicate'' [S mesh] [(''name'', S n)],
               Cmd ''setAttr'' [S (n @ ''.s'' @ mirror_axis), I (- 1)] [],
               Cmd ''makeIdentity'' [S n]
                 [(''apply'', B True), (''scale'', B True),
                  (''normal'', I 0), (''preserveNormals'', B True)]])))"
  by (auto simp: create_mirrored_mesh_run new_name_of_def calls_def Let_def
           split: option.splits)

text \<open>
  The claim as the specification words it fails on a name with two
  occurrences: \<open>a_l_b_l_c\<close> becomes \<open>a_r_b_r_c\<close>, while replacing the first
  occurrence only gives \<open>a_r_b_l_c\<close>.
\<close>

theorem create_mirrored_mesh_not_first_only:
  "fst (create_mirrored_mesh quiet_host ''a_l_b_l_c'' ''x'') = Inr ''a_r_b_r_c''
   \<and> replace_first ''_l_'' ''_r_'' ''a_l_b_l_c'' = ''a_r_b_l_c''
   \<and> fst (create_mirrored_mesh quiet_host ''a_l_b_l_c'' ''x'')
       \<noteq> Inr (replace_first ''_l_'' ''_r_'' ''a_l_b_l_c'')"
  by code_simp

text \<open>
  Claim C9. For a mesh name that contains neither \<open>_l_\<close> nor \<open>_r_\<close> the first
  host call asks for a duplicate under the name of the original mesh, and the
  function returns the input name unless a host command raised.
\<close>

theorem create_mirrored_mesh_same_name:
  assumes "\<not> py_in ''_l_'' mesh" and "\<not> py_in ''_r_'' mesh"
  shows "hd (calls (create_mirrored_mesh h mesh mirror_axis)) =
           Cmd ''duplicate'' [S mesh] [(''name'', S mesh)]
       \<and> (fst (create_mirrored_mesh h mesh mirror_axis) = Inr mesh
          \<or> (\<exists>c e. command h c = Some e
                  \<and> fst (create_mirrored_mesh h mesh mirror_axis) = Inl e))"
proof -
  have n: "new_name_of mesh = mesh"
    using assms by (simp add: new_name_of_def py_replace_absent)
  show ?thesis
    by (auto simp: create_mirrored_mesh_run n calls_def Let_def split: option.splits)
qed

theorem create_mirrored_mesh_same_name_witness:
  "\<not> py_in ''_l_'' ''body'' \<and> \<not> py_in ''_r_'' ''body''
   \<and> hd (calls (create_mirrored_mesh quiet_host ''body'' ''x'')) =
       Cmd ''duplicate'' [S ''body''] [(''name'', S ''body'')]
   \<and> fst (create_mirrored_mesh quiet_host ''body'' ''x'') = Inr ''body''"
proof -
  have a: "\<not> py_in ''_l_'' ''body''" and b: "\<not> py_in ''_r_'' ''body''"
    by simp_all
  have c: "\<forall>c. command quiet_host c = None"
    by (simp add: quiet_host_def)
  from create_mirrored_mesh_same_name [OF a b, of quiet_host "''x''"] a b c
  show ?thesis by simp
qed

section \<open>import_src_mesh\<close>

lemma first_transform_returns:
  "\<forall>n \<in> set (takeWhile (\<lambda>n. nodeType h n \<noteq> Inr ''transform'') nodes). \<exists>t. nodeType h n = Inr t
   \<Longrightarrow> fst (first_transform h nodes) =
       Inr (case find (\<lambda>n. nodeType h n = Inr ''transform'') nodes of Some n \<Rightarrow> n | None \<Rightarrow> '''')"
proof (induction nodes)
  case Nil
  then show ?case by (simp add: run_ret_def)
next
  case (Cons each rest)
  show ?case
  proof (cases "nodeType h each = Inr ''transform''")
    case True
    then show ?thesis by (simp add: fst_run_bind query_def run_ret_def)
  next
    case False
    with Cons.prems obtain t where t: "nodeType h each = Inr t" "t \<noteq> ''transform''"
      by auto
    from Cons.prems False
    have "\<forall>n \<in> set (takeWhile (\<lambda>n. nodeType h n \<noteq> Inr ''transform'') rest). \<exists>t. nodeType h n = Inr t"
      by simp
    from Cons.IH [OF this] t show ?thesis
      by (simp add: fst_run_bind query_def)
  qed
qed

text \<open>
  Claim C5. When the host imports the file and answers with the list of new
  nodes, and the type query raises for none of the nodes that come before the
  first transform, \<open>import_src_mesh\<close> first calls the host's file import on
  the path and returns the first node of the list whose type is
  \<open>transform\<close>, or the empty string when the list has no such node.
\<close>

theorem import_src_mesh_first_transform:
  assumes "file_import h file_path = Inr nodes"
    and "\<forall>n \<in> set (takeWhile (\<lambda>n. nodeType h n \<noteq> Inr ''transform'') nodes).
           \<exists>t. nodeType h n = Inr t"
  shows "hd (calls (import_src_mesh h file_path)) =
           Cmd ''file'' [S file_path]
             [(''i'', B True), (''force'', B True), (''groupReference'', B False),
              (''mergeNamespacesOnClash'', B True), (''removeDuplicateNetworks'', B True),
              (''returnNewNodes'', B True)]
       \<and> fst (import_src_mesh h file_path) =
           Inr (case find (\<lambda>n. nodeType h n = Inr ''transform'') nodes of
                  Some n \<Rightarrow> n | None \<Rightarrow> '''')"
  using assms(1) first_transform_returns [OF assms(2)]
  by (simp add: import_src_mesh_def import_call_def fst_run_bind snd_run_bind query_def calls_def)

theorem import_src_mesh_first_transform_witness:
  "file_import quiet_host ''a.obj'' = Inr [''|obj|objShape'', ''|obj'', ''|obj2'']
   \<and> takeWhile (\<lambda>n. nodeType quiet_host n \<noteq> Inr ''transform'')
         [''|obj|objShape'', ''|obj'', ''|obj2''] = [''|obj|objShape'']
   \<and> nodeType quiet_host ''|obj|objShape'' = Inr ''mesh''
   \<and> fst (import_src_mesh quiet_host ''a.obj'') = Inr ''|obj''"
proof -
  have a: "file_import quiet_host ''a.obj'' = Inr [''|obj|objShape'', ''|obj'', ''|obj2'']"
    by (simp add: quiet_host_def)
  have b: "\<forall>n \<in> set (takeWhile (\<lambda>n. nodeType quiet_host n \<noteq> Inr ''transform'')
                       [''|obj|objShape'', ''|obj'', ''|obj2'']).
             \<exists>t. nodeType quiet_host n = Inr t"
    by (simp add: quiet_host_def)
  from import_src_mesh_first_transform [OF a b] a show ?thesis
    by (simp add: quiet_host_def)
qed

section \<open>The small scene obeys the laws\<close>

lemma small_scene_selection_laws: "selection_laws small_scene"
  by (auto simp: selection_laws_def small_scene_def scene_effect_def select_replace_def
        select_deselect_def export_call_def unfreeze_normals_def delete_history_def)

lemma small_scene_frame_laws: "frame_laws small_scene"
  by (auto simp: frame_laws_def small_scene_def scene_effect_def select_replace_def
        select_deselect_def unfreeze_normals_def delete_history_def)

section \<open>export_dest_mesh\<close>

lemma export_dest_mesh_returns:
  assumes "fst (export_dest_mesh h mesh file_path) = Inr ()"
  shows "calls (export_dest_mesh h mesh file_path) =
           [select_replace mesh, Cmd ''print'' [S file_path] [], export_call file_path,
            select_deselect]"
  using assms
  by (auto simp: export_dest_mesh_def fst_run_bind snd_run_bind exec_def emit_def calls_def
        select_replace_def select_deselect_def split: option.splits sum.splits)

text \<open>
  Claim C6. Whenever \<open>export_dest_mesh\<close> returns, it has made exactly these
  calls: it selected the given mesh with \<open>replace\<close>, printed the path, exported
  to the path with type \<open>OBJexport\<close>, \<open>force\<close> and \<open>exportSelected\<close> on and
  \<open>constructionHistory\<close> off, and selected with \<open>deselect\<close>. In every scene
  model that obeys the selection laws, the active list is exactly the given mesh
  when the export is called, and empty when the function returns.
\<close>

theorem export_dest_mesh_selection:
  assumes "selection_laws M"
    and "fst (export_dest_mesh h mesh file_path) = Inr ()"
  shows "calls (export_dest_mesh h mesh file_path) =
           [Cmd ''select'' [S mesh] [(''replace'', B True)],
            Cmd ''print'' [S file_path] [],
            Cmd ''file'' [S file_path]
              [(''type'', S ''OBJexport''), (''force'', B True), (''exportSelected'', B True),
               (''preserveReferences'', B True), (''constructionHistory'', B False),
               (''options'', S ''groups=1;ptgroups=1;materials=0;smoothing=1;normals=1;'')],
            Cmd ''select'' [] [(''deselect'', B True)]]
       \<and> active_list M (scene_after M (take 2 (calls (export_dest_mesh h mesh file_path))) s) = [mesh]
       \<and> active_list M (scene_after M (calls (export_dest_mesh h mesh file_path)) s) = []"
  using assms(1)
  by (simp add: export_dest_mesh_returns [OF assms(2)] scene_after_def selection_laws_def
        select_replace_def [symmetric] select_deselect_def [symmetric] export_call_def [symmetric])

theorem export_dest_mesh_selection_witness:
  "fst (export_dest_mesh quiet_host ''body_r_smile'' ''/tmp/body_r_smile'') = Inr ()
   \<and> length (calls (export_dest_mesh quiet_host ''body_r_smile'' ''/tmp/body_r_smile'')) = 4
   \<and> selection (scene_after small_scene
        (take 2 (calls (export_dest_mesh quiet_host ''body_r_smile'' ''/tmp/body_r_smile'')))
        \<lparr>selection = [''other''], with_history = {}, unfrozen = {}\<rparr>) = [''body_r_smile'']
   \<and> selection (scene_after small_scene
        (calls (export_dest_mesh quiet_host ''body_r_smile'' ''/tmp/body_r_smile''))
        \<lparr>selection = [''other''], with_history = {}, unfrozen = {}\<rparr>) = []"
proof -
  have r: "fst (export_dest_mesh quiet_host ''body_r_smile'' ''/tmp/body_r_smile'') = Inr ()"
    by (simp add: export_dest_mesh_def fst_run_bind exec_def emit_def quiet_host_def)
  note t = export_dest_mesh_selection [OF small_scene_selection_laws r,
      of "\<lparr>selection = [''other''], with_history = {}, unfrozen = {}\<rparr>"]
  have c: "length (calls (export_dest_mesh quiet_host ''body_r_smile'' ''/tmp/body_r_smile'')) = 4"
    using conjunct1 [OF t] by simp
  have a: "selection (scene_after small_scene
        (take 2 (calls (export_dest_mesh quiet_host ''body_r_smile'' ''/tmp/body_r_smile'')))
        \<lparr>selection = [''other''], with_history = {}, unfrozen = {}\<rparr>) = [''body_r_smile'']"
    using conjunct1 [OF conjunct2 [OF t]] by (simp add: small_scene_def)
  have b: "selection (scene_after small_scene
        (calls (export_dest_mesh quiet_host ''body_r_smile'' ''/tmp/body_r_smile''))
        \<lparr>selection = [''other''], with_history = {}, unfrozen = {}\<rparr>) = []"
    using conjunct2 [OF conjunct2 [OF t]] by (simp add: small_scene_def)
  from r c a b show ?thesis by blast
qed

section \<open>transfer_vert_order\<close>

lemma commands_after_remap:
  assumes "fst (run_bind (exec h c1) (\<lambda>_. run_bind (exec h c2) (\<lambda>_.
             run_bind (exec h c3) (\<lambda>_. run_bind (exec h c4) (\<lambda>_. exec h c5))))) = Inr v"
  shows "calls (run_bind (exec h c1) (\<lambda>_. run_bind (exec h c2) (\<lambda>_.
             run_bind (exec h c3) (\<lambda>_. run_bind (exec h c4) (\<lambda>_. exec h c5))))) =
           [c1, c2, c3, c4, c5]"
proof -
  note a1 = exec_then_returns [OF assms]
  note a2 = exec_then_returns [OF conjunct1 [OF a1]]
  note a3 = exec_then_returns [OF conjunct1 [OF a2]]
  note a4 = exec_then_returns [OF conjunct1 [OF a3]]
  note a5 = exec_returns [OF conjunct1 [OF a4]]
  show ?thesis
    by (simp only: conjunct2 [OF a1] conjunct2 [OF a2] conjunct2 [OF a3] conjunct2 [OF a4] a5)
qed

lemma transfer_vert_order_returns:
  assumes "fst (transfer_vert_order h src_mesh dest_mesh vertex_ids) = Inr ()"
  shows "\<exists>c. calls (transfer_vert_order h src_mesh dest_mesh vertex_ids) =
           [c, select_replace dest_mesh, unfreeze_normals, select_deselect,
            delete_history dest_mesh]"
  using assms
  unfolding transfer_vert_order_def Let_def run_bind_lift select_replace_def
    select_deselect_def unfreeze_normals_def delete_history_def
  by (auto split: sum.splits dest: commands_after_remap)

text \<open>
  Claim C10, as the program has it. Whenever \<open>transfer_vert_order\<close> returns,
  the calls after the remap are: select the destination mesh with \<open>replace\<close>,
  un-freeze the normals, select with \<open>deselect\<close>, delete the construction
  history of the destination mesh. In every scene model that obeys the
  selection and frame laws the active list is then empty and the destination
  mesh has no construction history; and when the source and the destination
  are different meshes, the state of the source mesh (geometry and history)
  after the function is what it was right after the remap: the selection, the
  un-freezing and the deletion have not changed it.
\<close>

theorem transfer_vert_order_frame:
  assumes "selection_laws M" and "frame_laws M"
    and "fst (transfer_vert_order h src_mesh dest_mesh vertex_ids) = Inr ()"
  shows "drop 1 (calls (transfer_vert_order h src_mesh dest_mesh vertex_ids)) =
           [Cmd ''select'' [S dest_mesh] [(''replace'', B True)],
            Cmd ''polyNormalPerVertex'' [] [(''freezeNormal'', B False)],
            Cmd ''select'' [] [(''deselect'', B True)],
            Cmd ''delete'' [S dest_mesh] [(''constructionHistory'', B True)]]
       \<and> active_list M
           (scene_after M (calls (transfer_vert_order h src_mesh dest_mesh vertex_ids)) s) = []
       \<and> \<not> has_history M (mesh_state M
           (scene_after M (calls (transfer_vert_order h src_mesh dest_mesh vertex_ids)) s)
           dest_mesh)
       \<and> (src_mesh \<noteq> dest_mesh \<longrightarrow>
           mesh_state M
             (scene_after M (calls (transfer_vert_order h src_mesh dest_mesh vertex_ids)) s)
             src_mesh =
           mesh_state M
             (scene_after M (take 1 (calls (transfer_vert_order h src_mesh dest_mesh vertex_ids))) s)
             src_mesh)"
proof -
  from transfer_vert_order_returns [OF assms(3)] obtain c where
    cs: "calls (transfer_vert_order h src_mesh dest_mesh vertex_ids) =
           [c, select_replace dest_mesh, unfreeze_normals, select_deselect,
            delete_history dest_mesh]"
    by blast
  define s1 where "s1 = effect M c s"
  define s2 where "s2 = effect M (select_replace dest_mesh) s1"
  define s3 where "s3 = effect M unfreeze_normals s2"
  define s4 where "s4 = effect M select_deselect s3"
  define s5 where "s5 = effect M (delete_history dest_mesh) s4"
  have fin: "scene_after M (calls (transfer_vert_order h src_mesh dest_mesh vertex_ids)) s = s5"
    by (simp add: cs scene_after_def s1_def s2_def s3_def s4_def s5_def)
  have one: "scene_after M (take 1 (calls (transfer_vert_order h src_mesh dest_mesh vertex_ids))) s = s1"
    by (simp add: cs scene_after_def s1_def)
  have a4: "active_list M s4 = []"
    using assms(1) by (simp add: selection_laws_def s4_def)
  have "set (active_list M s5) \<subseteq> set (active_list M s4)"
    using assms(1) by (simp add: selection_laws_def s5_def)
  with a4 have a5: "active_list M s5 = []" by simp
  have h5: "\<not> has_history M (mesh_state M s5 dest_mesh)"
    using assms(2) by (simp add: frame_laws_def s5_def)
  have a2: "active_list M s2 = [dest_mesh]"
    using assms(1) by (simp add: selection_laws_def s2_def)
  have m2: "mesh_state M s2 src_mesh = mesh_state M s1 src_mesh"
    using assms(2) by (simp add: frame_laws_def s2_def)
  have m3: "mesh_state M s3 src_mesh = mesh_state M s2 src_mesh"
    if "src_mesh \<noteq> dest_mesh"
    using assms(2) that a2 by (simp add: frame_laws_def s3_def)
  have m4: "mesh_state M s4 src_mesh = mesh_state M s3 src_mesh"
    using assms(2) by (simp add: frame_laws_def s4_def)
  have m5: "mesh_state M s5 src_mesh = mesh_state M s4 src_mesh"
    if "src_mesh \<noteq> dest_mesh"
    using assms(2) that by (simp add: frame_laws_def s5_def)
  have d: "drop 1 (calls (transfer_vert_order h src_mesh dest_mesh vertex_ids)) =
           [Cmd ''select'' [S dest_mesh] [(''replace'', B True)],
            Cmd ''polyNormalPerVertex'' [] [(''freezeNormal'', B False)],
            Cmd ''select'' [] [(''deselect'', B True)],
            Cmd ''delete'' [S dest_mesh] [(''constructionHistory'', B True)]]"
    by (simp add: cs select_replace_def unfreeze_normals_def select_deselect_def
          delete_history_def)
  show ?thesis
    unfolding fin one using d a5 h5 m2 m3 m4 m5 by simp
qed

lemma transfer_vert_order_quiet:
  "transfer_vert_order quiet_host src dest [[3, 5, 0], [3, 5, 7]] =
     (Inr (),
      [(Cmd ''meshRemap''
          [S (vtx_name src 3), S (vtx_name src 5), S (vtx_name src 0),
           S (vtx_name dest 3), S (vtx_name dest 5), S (vtx_name dest 7)] [], Returned),
       (select_replace dest, Returned), (unfreeze_normals, Returned),
       (select_deselect, Returned), (delete_history dest, Returned)])"
  by (simp add: transfer_vert_order_def run_bind_def exec_def lift_def py_nth_def
        quiet_host_def select_replace_def unfreeze_normals_def select_deselect_def
        delete_history_def)

theorem transfer_vert_order_frame_witness:
  "fst (transfer_vert_order quiet_host ''a_l_b'' ''a_r_b'' [[3, 5, 0], [3, 5, 7]]) = Inr ()
   \<and> ''a_l_b'' \<noteq> ''a_r_b''
   \<and> selection (scene_after small_scene
        (calls (transfer_vert_order quiet_host ''a_l_b'' ''a_r_b'' [[3, 5, 0], [3, 5, 7]]))
        \<lparr>selection = [''a_l_b''], with_history = {''a_l_b'', ''a_r_b''}, unfrozen = {}\<rparr>) = []
   \<and> mesh_state small_scene (scene_after small_scene
        (calls (transfer_vert_order quiet_host ''a_l_b'' ''a_r_b'' [[3, 5, 0], [3, 5, 7]]))
        \<lparr>selection = [''a_l_b''], with_history = {''a_l_b'', ''a_r_b''}, unfrozen = {}\<rparr>)
        ''a_l_b'' = (True, False)"
proof -
  have r: "fst (transfer_vert_order quiet_host ''a_l_b'' ''a_r_b'' [[3, 5, 0], [3, 5, 7]]) = Inr ()"
    by (simp add: transfer_vert_order_quiet)
  have n: "''a_l_b'' \<noteq> ''a_r_b''" by simp
  have one: "mesh_state small_scene (scene_after small_scene
        (take 1 (calls (transfer_vert_order quiet_host ''a_l_b'' ''a_r_b'' [[3, 5, 0], [3, 5, 7]])))
        \<lparr>selection = [''a_l_b''], with_history = {''a_l_b'', ''a_r_b''}, unfrozen = {}\<rparr>)
        ''a_l_b'' = (True, False)"
    by (simp add: transfer_vert_order_quiet calls_def scene_after_def small_scene_def
          scene_effect_def unfreeze_normals_def)
  from transfer_vert_order_frame [OF small_scene_selection_laws small_scene_frame_laws r,
      of "\<lparr>selection = [''a_l_b''], with_history = {''a_l_b'', ''a_r_b''}, unfrozen = {}\<rparr>"]
    r n one
  show ?thesis by (simp add: small_scene_def)
qed

text \<open>
  Without the condition that the two meshes differ the claim fails: called
  with the same name for both, as \<open>build\<close> does for a mesh whose name has
  neither \<open>_l_\<close> nor \<open>_r_\<close>, the steps after the remap delete the construction
  history of the source mesh and un-freeze its normals.
\<close>

theorem transfer_vert_order_same_mesh:
  "selection_laws small_scene \<and> frame_laws small_scene
   \<and> fst (transfer_vert_order quiet_host ''body'' ''body'' [[3, 5, 0], [3, 5, 7]]) = Inr ()
   \<and> mesh_state small_scene (scene_after small_scene
        (take 1 (calls (transfer_vert_order quiet_host ''body'' ''body'' [[3, 5, 0], [3, 5, 7]])))
        \<lparr>selection = [], with_history = {''body''}, unfrozen = {}\<rparr>) ''body'' = (True, False)
   \<and> mesh_state small_scene (scene_after small_scene
        (calls (transfer_vert_order quiet_host ''body'' ''body'' [[3, 5, 0], [3, 5, 7]]))
        \<lparr>selection = [], with_history = {''body''}, unfrozen = {}\<rparr>) ''body'' = (False, True)"
proof -
  have "fst (transfer_vert_order quiet_host ''body'' ''body'' [[3, 5, 0], [3, 5, 7]]) = Inr ()
   \<and> mesh_state small_scene (scene_after small_scene
        (take 1 (calls (transfer_vert_order quiet_host ''body'' ''body'' [[3, 5, 0], [3, 5, 7]])))
        \<lparr>selection = [], with_history = {''body''}, unfrozen = {}\<rparr>) ''body'' = (True, False)
   \<and> mesh_state small_scene (scene_after small_scene
        (calls (transfer_vert_order quiet_host ''body'' ''body'' [[3, 5, 0], [3, 5, 7]]))
        \<lparr>selection = [], with_history = {''body''}, unfrozen = {}\<rparr>) ''body'' = (False, True)"
    by (simp add: transfer_vert_order_quiet calls_def scene_after_def small_scene_def
          scene_effect_def unfreeze_normals_def select_replace_def select_deselect_def
          delete_history_def)
  with small_scene_selection_laws small_scene_frame_laws show ?thesis
    by blast
qed

section \<open>src_verts\<close>

text \<open>
  Claim C2 fails on the program. The central vertex \<open>m.vtx[3]\<close> has the
  connected vertices 5 and 7, at \<open>x = 2\<close> and \<open>x = 1\<close>. The connected vertex
  with the greatest \<open>x\<close> is 5, the first one, but the source-side vertex that
  \<open>src_verts\<close> returns is 0, the value \<open>side_vert_src\<close> starts with: the loop
  only replaces it when a later vertex lies strictly further out than the
  first. The upper vertex starts as the first connected vertex and is right.
\<close>

theorem src_verts_side_vertex_default:
  "getConnectedVertices quiet_host ''mShape'' 3 = Inr [5, 7]
   \<and> xform quiet_host ''m.vtx[5]'' = Inr [2, 0, 0]
   \<and> xform quiet_host ''m.vtx[7]'' = Inr [1, 0, 0]
   \<and> fst (src_verts quiet_host ''m.vtx[3]'' ''x'') = Inr [[3, 5, 0], [3, 5, 7]]"
  by code_simp

text \<open>
  The name of each connected vertex is made by replacing the digits of the
  central vertex's number everywhere in the string, so also inside the mesh
  name: for \<open>m3.vtx[3]\<close> the positions asked for are those of \<open>m5.vtx[5]\<close> and
  \<open>m7.vtx[7]\<close>.
\<close>

lemma src_verts_renames_mesh:
  "map fst (drop 6 (snd (src_verts quiet_host ''m3.vtx[3]'' ''x''))) =
     [xform_call ''m5.vtx[5]'', xform_call ''m7.vtx[7]'']"
  by code_simp

section \<open>build\<close>

text \<open>
  Claim C4 fails on the program. With an empty text field and nothing
  selected, the host answers the selection query with the empty list; taking
  its first element raises IndexError, and \<open>build\<close> stops there. The only
  event of the run is the selection query: no error is logged.
\<close>

theorem build_nothing_selected:
  "ls_selection quiet_host = Inr []
   \<and> fst (build quiet_host
        \<lparr>vert_textfield = '''', mirror_axis_cbox = ''x'', export_cbox = True,
         file_path_line = ''/tmp'', directory_path = ''''\<rparr>) =
       (Inl IndexError, [(ls_call, Strs [])])"
  by code_simp

text \<open>
  With an empty text field and an object selected that is not a vertex,
  \<open>build\<close> goes on to duplicate that object before it fails on the name.
\<close>

lemma build_object_selected:
  "fst (fst (build (quiet_host\<lparr>ls_selection := Inr [''pCube1'']\<rparr>)
        \<lparr>vert_textfield = '''', mirror_axis_cbox = ''x'', export_cbox = True,
         file_path_line = ''/tmp'', directory_path = ''''\<rparr>)) = Inl ValueError
   \<and> Cmd ''duplicate'' [S ''pCube1''] [(''name'', S ''pCube1'')]
       \<in> set (calls (fst (build (quiet_host\<lparr>ls_selection := Inr [''pCube1'']\<rparr>)
        \<lparr>vert_textfield = '''', mirror_axis_cbox = ''x'', export_cbox = True,
         file_path_line = ''/tmp'', directory_path = ''''\<rparr>)))"
  by code_simp

text \<open>
  For a text field that names no object of the scene the claim holds: the error
  is logged, and reading the unbound variable \<open>mesh\<close> then stops \<open>build\<close>
  before any other host call.
\<close>

lemma build_missing_object:
  assumes "vert_textfield g \<noteq> ''''" and "\<not> objExists h (vert_textfield g)"
  shows "build h g =
           ((Inl UnboundLocalError,
             [(Cmd ''objExists'' [S (vert_textfield g)] [], Bool False),
              (Cmd ''LOG.error'' [S not_exists_msg] [], Returned)]), g)"
  using assms
  by (simp add: build_def build_target_def build_mirror_def run_bind_def query_def emit_def
        run_ret_def lift_def local_var_def)

section \<open>Runs are determined by the host's answers\<close>

lemma determined_ret: "determined (run_ret a) (run_ret a)"
  by (simp add: determined_def)

lemma determined_lift: "determined (lift r) (lift r)"
  by (simp add: determined_def)

lemma determined_emit: "determined (emit c) (emit c)"
  by (simp add: determined_def)

lemma determined_exec: "determined (exec h c) (exec h' c)"
  by (auto simp: determined_def exec_def split: option.splits)

lemma determined_query:
  assumes "\<And>a b. wrap a = wrap b \<Longrightarrow> a = b" and "\<And>a e. wrap a \<noteq> Raised e"
  shows "determined (query c wrap r) (query c wrap r')"
  using assms
  by (auto simp: determined_def query_def split: sum.splits dest: sym)

lemma determined_bind:
  assumes m: "determined m m'" and f: "\<And>a. determined (f a) (f' a)"
  shows "determined (run_bind m f) (run_bind m' f')"
  unfolding determined_def
proof (intro allI impI)
  fix x y
  assume eq: "map snd (snd (run_bind m f)) @ x = map snd (snd (run_bind m' f')) @ y"
  obtain r tr where mr: "m = (r, tr)" by (cases m)
  obtain r' tr' where mr': "m' = (r', tr')" by (cases m')
  have pre: "\<exists>x' y'. map snd tr @ x' = map snd tr' @ y'"
    using eq mr mr'
    by (cases r; cases r') (auto simp: run_bind_def split: prod.splits)
  with m mr mr' have "m = m'"
    by (auto simp: determined_def)
  with mr have mr2: "m' = (r, tr)" by simp
  show "run_bind m f = run_bind m' f'"
  proof (cases r)
    case (Inl e)
    then show ?thesis by (simp add: run_bind_def mr mr2)
  next
    case (Inr a)
    with eq have "map snd (snd (f a)) @ x = map snd (snd (f' a)) @ y"
      by (auto simp: run_bind_def mr mr2 split: prod.splits)
    with f [of a] have "f a = f' a"
      by (auto simp: determined_def)
    with Inr show ?thesis by (simp add: run_bind_def mr mr2)
  qed
qed

lemma determined_first_transform:
  "determined (first_transform h nodes) (first_transform h' nodes)"
proof (induction nodes)
  case Nil
  show ?case by (simp add: determined_ret)
next
  case (Cons each rest)
  show ?case
    unfolding first_transform.simps
    by (rule determined_bind, rule determined_query) (simp_all add: determined_ret Cons.IH)
qed

lemma determined_import_src_mesh:
  "determined (import_src_mesh h file_path) (import_src_mesh h' file_path)"
  unfolding import_src_mesh_def
  by (rule determined_bind, rule determined_query) (simp_all add: determined_first_transform)

lemma determined_vert_positions:
  "determined (vert_positions h central_vert vert_num vert_ids)
     (vert_positions h' central_vert vert_num vert_ids)"
proof (induction vert_ids)
  case Nil
  show ?case by (simp add: determined_ret)
next
  case (Cons each rest)
  show ?case
    unfolding vert_positions.simps
    by (rule determined_bind, rule determined_query)
       (simp_all add: determined_bind determined_ret Cons.IH)
qed

lemma determined_connected_vertices:
  "determined (connected_vertices h shape vert_num) (connected_vertices h' shape vert_num)"
  unfolding connected_vertices_def
  by (intro determined_bind determined_exec determined_query) simp_all

lemma determined_src_verts:
  "determined (src_verts h central_vert mirror_axis) (src_verts h' central_vert mirror_axis)"
  unfolding src_verts_def Let_def
  by (intro determined_bind determined_query determined_lift determined_connected_vertices
        determined_vert_positions) simp_all

lemma determined_transfer_vert_order:
  "determined (transfer_vert_order h src_mesh dest_mesh vertex_ids)
     (transfer_vert_order h' src_mesh dest_mesh vertex_ids)"
  unfolding transfer_vert_order_def Let_def
  by (intro determined_bind determined_lift determined_exec)

lemma determined_create_mirrored_mesh:
  "determined (create_mirrored_mesh h mesh mirror_axis) (create_mirrored_mesh h' mesh mirror_axis)"
  unfolding create_mirrored_mesh_def Let_def
  by (intro determined_bind determined_exec determined_ret)

lemma determined_export_dest_mesh:
  "determined (export_dest_mesh h mesh file_path) (export_dest_mesh h' mesh file_path)"
  unfolding export_dest_mesh_def
  by (intro determined_bind determined_exec determined_emit)

lemma determined_same:
  assumes "determined r r'" and "responses r = responses r'"
  shows "r = r'"
  using assms by (auto simp: determined_def responses_def)

text \<open>
  Claim C7. Each core function takes nothing but its arguments and the host's
  answers. For two runs with the same arguments, under any two hosts: when the
  sequences of answers the two runs got from the host are the same, the runs
  are the same, that is, they have the same outcome and made the same sequence
  of host calls.
\<close>

theorem core_functions_deterministic:
  "(responses (import_src_mesh h file_path) = responses (import_src_mesh h' file_path)
      \<longrightarrow> import_src_mesh h file_path = import_src_mesh h' file_path)
   \<and> (responses (src_verts h central_vert mirror_axis)
        = responses (src_verts h' central_vert mirror_axis)
      \<longrightarrow> src_verts h central_vert mirror_axis = src_verts h' central_vert mirror_axis)
   \<and> (responses (transfer_vert_order h src_mesh dest_mesh vertex_ids)
        = responses (transfer_vert_order h' src_mesh dest_mesh vertex_ids)
      \<longrightarrow> transfer_vert_order h src_mesh dest_mesh vertex_ids
          = transfer_vert_order h' src_mesh dest_mesh vertex_ids)
   \<and> (responses (create_mirrored_mesh h mesh mirror_axis)
        = responses (create_mirrored_mesh h' mesh mirror_axis)
      \<longrightarrow> create_mirrored_mesh h mesh mirror_axis = create_mirrored_mesh h' mesh mirror_axis)
   \<and> (responses (export_dest_mesh h mesh file_path)
        = responses (export_dest_mesh h' mesh file_path)
      \<longrightarrow> export_dest_mesh h mesh file_path = export_dest_mesh h' mesh file_path)"
  using determined_same [OF determined_import_src_mesh]
    determined_same [OF determined_src_verts]
    determined_same [OF determined_transfer_vert_order]
    determined_same [OF determined_create_mirrored_mesh]
    determined_same [OF determined_export_dest_mesh]
  by blast

theorem core_functions_deterministic_witness:
  "responses (import_src_mesh quiet_host ''a.obj'') = responses (import_src_mesh other_host ''a.obj'')
   \<and> import_src_mesh quiet_host ''a.obj'' = import_src_mesh other_host ''a.obj''
   \<and> responses (src_verts quiet_host ''m.vtx[3]'' ''x'') = responses (src_verts other_host ''m.vtx[3]'' ''x'')
   \<and> src_verts quiet_host ''m.vtx[3]'' ''x'' = src_verts other_host ''m.vtx[3]'' ''x''
   \<and> responses (transfer_vert_order quiet_host ''a_l_b'' ''a_r_b'' [[3, 5, 0], [3, 5, 7]])
       = responses (transfer_vert_order other_host ''a_l_b'' ''a_r_b'' [[3, 5, 0], [3, 5, 7]])
   \<and> transfer_vert_order quiet_host ''a_l_b'' ''a_r_b'' [[3, 5, 0], [3, 5, 7]]
       = transfer_vert_order other_host ''a_l_b'' ''a_r_b'' [[3, 5, 0], [3, 5, 7]]
   \<and> responses (create_mirrored_mesh quiet_host ''a_l_b'' ''x'')
       = responses (create_mirrored_mesh other_host ''a_l_b'' ''x'')
   \<and> create_mirrored_mesh quiet_host ''a_l_b'' ''x'' = create_mirrored_mesh other_host ''a_l_b'' ''x''
   \<and> responses (export_dest_mesh quiet_host ''a_r_b'' ''/tmp/a_r_b'')
       = responses (export_dest_mesh other_host ''a_r_b'' ''/tmp/a_r_b'')
   \<and> export_dest_mesh quiet_host ''a_r_b'' ''/tmp/a_r_b'' = export_dest_mesh other_host ''a_r_b'' ''/tmp/a_r_b''
   \<and> nodeType quiet_host ''|obj2'' \<noteq> nodeType other_host ''|obj2''"
proof -
  have r1: "responses (import_src_mesh quiet_host ''a.obj'') = responses (import_src_mesh other_host ''a.obj'')"
    by code_simp
  have r2: "responses (src_verts quiet_host ''m.vtx[3]'' ''x'') = responses (src_verts other_host ''m.vtx[3]'' ''x'')"
    by code_simp
  have r3: "responses (transfer_vert_order quiet_host ''a_l_b'' ''a_r_b'' [[3, 5, 0], [3, 5, 7]])
       = responses (transfer_vert_order other_host ''a_l_b'' ''a_r_b'' [[3, 5, 0], [3, 5, 7]])"
    by code_simp
  have r4: "responses (create_mirrored_mesh quiet_host ''a_l_b'' ''x'')
       = responses (create_mirrored_mesh other_host ''a_l_b'' ''x'')"
    by code_simp
  have r5: "responses (export_dest_mesh quiet_host ''a_r_b'' ''/tmp/a_r_b'')
       = responses (export_dest_mesh other_host ''a_r_b'' ''/tmp/a_r_b'')"
    by code_simp
  have d: "nodeType quiet_host ''|obj2'' \<noteq> nodeType other_host ''|obj2''"
    by (simp add: other_host_def quiet_host_def)
  note t = core_functions_deterministic [of quiet_host "''a.obj''" other_host "''m.vtx[3]''" "''x''"
      "''a_l_b''" "''a_r_b''" "[[3, 5, 0], [3, 5, 7]]" "''a_l_b''"]
  note u = core_functions_deterministic [of quiet_host "''/tmp/a_r_b''" other_host "''m.vtx[3]''" "''x''"
      "''a_l_b''" "''a_r_b''" "[[3, 5, 0], [3, 5, 7]]" "''a_r_b''"]
  from t u r1 r2 r3 r4 r5 d show ?thesis by blast
qed

section \<open>build mirrors across x\<close>

lemma all_calls_ret: "all_calls P (run_ret a)"
  by (simp add: all_calls_def calls_def run_ret_def)

lemma all_calls_lift: "all_calls P (lift r)"
  by (simp add: all_calls_def calls_def lift_def)

lemma all_calls_emit: "P c \<Longrightarrow> all_calls P (emit c)"
  by (simp add: all_calls_def calls_def emit_def)

lemma all_calls_exec: "P c \<Longrightarrow> all_calls P (exec h c)"
  by (simp add: all_calls_def calls_def exec_def split: option.splits)

lemma all_calls_query: "P c \<Longrightarrow> all_calls P (query c wrap r)"
  by (simp add: all_calls_def calls_def query_def split: sum.splits)

lemma all_calls_bind:
  assumes "all_calls P m" and "\<And>a. all_calls P (f a)"
  shows "all_calls P (run_bind m f)"
  using assms
  by (auto simp: all_calls_def calls_def snd_run_bind split: sum.splits)

lemma all_calls_vert_positions:
  assumes "\<And>n. P (xform_call n)"
  shows "all_calls P (vert_positions h central_vert vert_num vert_ids)"
proof (induction vert_ids)
  case Nil
  show ?case by (simp add: all_calls_ret)
next
  case (Cons each rest)
  show ?case
    unfolding vert_positions.simps
    by (intro all_calls_bind all_calls_query all_calls_ret assms Cons.IH)
qed

lemma build_export_ignores_axis:
  "fst (build_export h (g\<lparr>mirror_axis_cbox := axis\<rparr>) new_mesh) = fst (build_export h g new_mesh)"
  by (simp add: build_export_def Let_def split: prod.splits)

lemma fst_build:
  "fst (build h g) =
     (case run_bind (build_target h g) (build_mirror h) of
        (Inl e, tr) \<Rightarrow> (Inl e, tr)
      | (Inr new_mesh, tr) \<Rightarrow>
          (fst (fst (build_export h g new_mesh)), tr @ snd (fst (build_export h g new_mesh))))"
  by (simp add: build_def split: prod.splits sum.splits)

lemma build_ignores_axis:
  "fst (build h (g\<lparr>mirror_axis_cbox := axis\<rparr>)) = fst (build h g)"
proof -
  have t: "build_target h (g\<lparr>mirror_axis_cbox := axis\<rparr>) = build_target h g"
    by (simp add: build_target_def cong: if_cong)
  show ?thesis
    by (simp only: fst_build t build_export_ignores_axis)
qed

lemma all_calls_mono:
  assumes "all_calls P r" and "\<And>c. P c \<Longrightarrow> Q c"
  shows "all_calls Q r"
  using assms by (auto simp: all_calls_def)

lemma no_setAttr_src_verts:
  "all_calls (\<lambda>c. cmd_name c \<noteq> ''setAttr'') (src_verts h central_vert mirror_axis)"
  unfolding src_verts_def Let_def connected_vertices_def
  by (intro all_calls_bind all_calls_exec all_calls_query all_calls_lift
        all_calls_vert_positions)
     (simp_all add: xform_call_def)

lemma no_setAttr_transfer_vert_order:
  "all_calls (\<lambda>c. cmd_name c \<noteq> ''setAttr'')
     (transfer_vert_order h src_mesh dest_mesh vertex_ids)"
  unfolding transfer_vert_order_def Let_def
  by (intro all_calls_bind all_calls_exec all_calls_lift) simp_all

lemma no_setAttr_export_dest_mesh:
  "all_calls (\<lambda>c. cmd_name c \<noteq> ''setAttr'') (export_dest_mesh h mesh file_path)"
  unfolding export_dest_mesh_def
  by (intro all_calls_bind all_calls_exec all_calls_emit) (simp_all add: export_call_def)

lemma no_setAttr_build_target:
  "all_calls (\<lambda>c. cmd_name c \<noteq> ''setAttr'') (build_target h g)"
  unfolding build_target_def ls_call_def
  by (auto intro!: all_calls_bind all_calls_query all_calls_emit all_calls_lift all_calls_ret)

lemma no_setAttr_build_export:
  "all_calls (\<lambda>c. cmd_name c \<noteq> ''setAttr'') (fst (build_export h g new_mesh))"
proof -
  have e: "\<forall>ev \<in> set (snd (export_dest_mesh h new_mesh p)). cmd_name (fst ev) \<noteq> ''setAttr''"
    for p
    using no_setAttr_export_dest_mesh [of h new_mesh p] by (simp add: all_calls_def calls_def)
  show ?thesis
    using e [of "file_path_line g @ ''/'' @ new_mesh"]
      e [of "getExistingDirectory h @ ''/'' @ new_mesh"]
    by (auto simp: build_export_def Let_def all_calls_def calls_def split: prod.splits)
qed

text \<open>Every attribute that \<open>create_mirrored_mesh\<close> sets with axis x is the x scale of
  the mirrored name of its mesh.\<close>

lemma setAttr_create_mirrored_mesh:
  "all_calls (\<lambda>c. cmd_name c = ''setAttr'' \<longrightarrow>
       c = Cmd ''setAttr'' [S (new_name_of mesh @ ''.sx''), I (- 1)] [])
     (create_mirrored_mesh h mesh ''x'')"
  unfolding create_mirrored_mesh_def Let_def
  by (intro all_calls_bind all_calls_exec all_calls_ret) simp_all

lemma build_mirror_bound:
  "build_mirror h (central_vert, Some m) =
     run_bind (create_mirrored_mesh h m ''x'') (\<lambda>new_mesh.
     run_bind (lift (local_var central_vert)) (\<lambda>cv.
     run_bind (src_verts h cv ''x'') (\<lambda>needed_verts.
     run_bind (transfer_vert_order h m new_mesh needed_verts) (\<lambda>_.
     run_ret new_mesh))))"
  by (simp add: build_mirror_def run_bind_lift local_var_def)

lemma setAttr_build_mirror:
  "all_calls (\<lambda>c. cmd_name c = ''setAttr'' \<longrightarrow>
       c = Cmd ''setAttr'' [S (new_name_of m @ ''.sx''), I (- 1)] [])
     (build_mirror h (central_vert, Some m))"
  unfolding build_mirror_bound
  by (intro all_calls_bind all_calls_lift all_calls_ret setAttr_create_mirrored_mesh
        all_calls_mono [OF no_setAttr_src_verts]
        all_calls_mono [OF no_setAttr_transfer_vert_order])
     simp_all

lemma calls_run_bind_left: "set (calls m) \<subseteq> set (calls (run_bind m f))"
  by (auto simp: calls_def snd_run_bind split: sum.splits)

lemma build_mirror_unbound: "build_mirror h (central_vert, None) = (Inl UnboundLocalError, [])"
  by (simp add: build_mirror_def run_bind_lift local_var_def)

lemma calls_build:
  "calls (fst (build h g)) =
     (case fst (build_target h g) of
        Inl e \<Rightarrow> calls (build_target h g)
      | Inr vars \<Rightarrow>
          calls (build_target h g) @
          (case fst (build_mirror h vars) of
             Inl e \<Rightarrow> calls (build_mirror h vars)
           | Inr new_mesh \<Rightarrow>
               calls (build_mirror h vars) @ calls (fst (build_export h g new_mesh))))"
  by (simp add: fst_build run_bind_def calls_def split: prod.splits sum.splits)

lemma setAttr_in_create_mirrored_mesh:
  assumes "command h (Cmd ''duplicate'' [S mesh] [(''name'', S (new_name_of mesh))]) = None"
  shows "Cmd ''setAttr'' [S (new_name_of mesh @ ''.s'' @ axis), I (- 1)] []
           \<in> set (calls (create_mirrored_mesh h mesh axis))"
  using assms
  by (simp add: create_mirrored_mesh_run Let_def calls_def split: option.splits)

lemma duplicate_in_create_mirrored_mesh:
  "Cmd ''duplicate'' [S mesh] [(''name'', S (new_name_of mesh))]
     \<in> set (calls (create_mirrored_mesh h mesh axis))"
  by (simp add: create_mirrored_mesh_run Let_def calls_def split: option.splits)

lemma calls_build_mirror:
  "set (calls (create_mirrored_mesh h m ''x'')) \<subseteq> set (calls (build_mirror h (central_vert, Some m)))"
  unfolding build_mirror_bound by (rule calls_run_bind_left)

lemma calls_build_mirror_in_build:
  assumes "fst (build_target h g) = Inr vars"
  shows "set (calls (build_mirror h vars)) \<subseteq> set (calls (fst (build h g)))"
  using assms by (auto simp: calls_build split: sum.splits)

lemma build_target_textfield:
  assumes "vert_textfield g \<noteq> ''''" and "objExists h (vert_textfield g)"
  shows "fst (build_target h g) =
           Inr (Some (vert_textfield g), Some (hd (py_split CHR ''.'' (vert_textfield g))))"
  using assms by (simp add: build_target_def fst_run_bind query_def run_ret_def)

lemma build_target_selection:
  assumes "vert_textfield g = ''''" and "ls_selection h = Inr (v # vs)" and "v \<noteq> ''''"
  shows "fst (build_target h g) = Inr (Some v, Some (hd (py_split CHR ''.'' v)))"
  using assms
  by (simp add: build_target_def fst_run_bind query_def run_ret_def lift_def py_nth_def)

text \<open>
  Claim C8. \<open>build\<close> calls \<open>create_mirrored_mesh\<close> with the mirror axis left
  at its default \<open>x\<close>. So whichever radio button of the Mirror Axis option is
  checked, the run of \<open>build\<close> is the same. Every call of the run that sets an
  attribute sets the scale along x (the attribute \<open>.sx\<close>) of the mirrored name
  of the mesh that \<open>build\<close> works on to \<open>-1\<close>. And the flip does happen:
  whenever the first statement of \<open>build\<close> finds a mesh, \<open>build\<close> asks the host
  to duplicate it under the mirrored name, and when that duplication does not
  raise, \<open>build\<close> sets the x scale of the mirrored name to \<open>-1\<close>.
\<close>

theorem build_always_mirrors_x:
  "fst (build h (g\<lparr>mirror_axis_cbox := axis\<rparr>)) = fst (build h g)
   \<and> (\<forall>c \<in> set (calls (fst (build h g))).
        cmd_name c = ''setAttr'' \<longrightarrow>
          (\<exists>central_vert m.
             fst (build_target h g) = Inr (central_vert, Some m)
             \<and> c = Cmd ''setAttr'' [S (new_name_of m @ ''.sx''), I (- 1)] []))
   \<and> (\<forall>central_vert m.
        fst (build_target h g) = Inr (central_vert, Some m) \<longrightarrow>
          Cmd ''duplicate'' [S m] [(''name'', S (new_name_of m))]
            \<in> set (calls (fst (build h g))))
   \<and> (\<forall>central_vert m.
        fst (build_target h g) = Inr (central_vert, Some m)
        \<and> command h (Cmd ''duplicate'' [S m] [(''name'', S (new_name_of m))]) = None \<longrightarrow>
          Cmd ''setAttr'' [S (new_name_of m @ ''.sx''), I (- 1)] []
            \<in> set (calls (fst (build h g))))"
proof (intro conjI ballI impI allI)
  show "fst (build h (g\<lparr>mirror_axis_cbox := axis\<rparr>)) = fst (build h g)"
    by (rule build_ignores_axis)
next
  fix c
  assume c: "c \<in> set (calls (fst (build h g)))" and n: "cmd_name c = ''setAttr''"
  have t: "c \<notin> set (calls (build_target h g))"
    using no_setAttr_build_target [of h g] n by (auto simp: all_calls_def)
  have e: "c \<notin> set (calls (fst (build_export h g new_mesh)))" for new_mesh
    using no_setAttr_build_export [of h g new_mesh] n by (auto simp: all_calls_def)
  from c t obtain vars where v: "fst (build_target h g) = Inr vars"
    by (cases "fst (build_target h g)") (auto simp: calls_build)
  with c t e have cm: "c \<in> set (calls (build_mirror h vars))"
    by (auto simp: calls_build split: sum.splits)
  obtain central_vert mesh where vars: "vars = (central_vert, mesh)"
    by (cases vars)
  show "\<exists>central_vert m.
          fst (build_target h g) = Inr (central_vert, Some m)
          \<and> c = Cmd ''setAttr'' [S (new_name_of m @ ''.sx''), I (- 1)] []"
  proof (cases mesh)
    case None
    with cm vars show ?thesis by (simp add: build_mirror_unbound calls_def)
  next
    case (Some m)
    with setAttr_build_mirror [of m h central_vert] cm n vars
    have "c = Cmd ''setAttr'' [S (new_name_of m @ ''.sx''), I (- 1)] []"
      by (auto simp: all_calls_def)
    with v vars Some show ?thesis by blast
  qed
next
  fix central_vert m
  assume v: "fst (build_target h g) = Inr (central_vert, Some m)"
  from duplicate_in_create_mirrored_mesh [of m h "''x''"]
    calls_build_mirror [of h m central_vert] calls_build_mirror_in_build [OF v]
  show "Cmd ''duplicate'' [S m] [(''name'', S (new_name_of m))]
          \<in> set (calls (fst (build h g)))"
    by blast
next
  fix central_vert m
  assume a: "fst (build_target h g) = Inr (central_vert, Some m)
        \<and> command h (Cmd ''duplicate'' [S m] [(''name'', S (new_name_of m))]) = None"
  from setAttr_in_create_mirrored_mesh [OF conjunct2 [OF a], of "''x''"]
    calls_build_mirror [of h m central_vert] calls_build_mirror_in_build [OF conjunct1 [OF a]]
  show "Cmd ''setAttr'' [S (new_name_of m @ ''.sx''), I (- 1)] []
          \<in> set (calls (fst (build h g)))"
    by auto
qed

theorem build_always_mirrors_x_witness:
  "fst (build_target (quiet_host\<lparr>objExists := (\<lambda>n. True)\<rparr>)
          \<lparr>vert_textfield = ''m.vtx[3]'', mirror_axis_cbox = ''z'', export_cbox = False,
           file_path_line = '''', directory_path = ''''\<rparr>) = Inr (Some ''m.vtx[3]'', Some ''m'')
   \<and> command (quiet_host\<lparr>objExists := (\<lambda>n. True)\<rparr>)
        (Cmd ''duplicate'' [S ''m''] [(''name'', S (new_name_of ''m''))]) = None
   \<and> new_name_of ''m'' = ''m''
   \<and> Cmd ''setAttr'' [S ''m.sx'', I (- 1)] []
     \<in> set (calls (fst (build (quiet_host\<lparr>objExists := (\<lambda>n. True)\<rparr>)
          \<lparr>vert_textfield = ''m.vtx[3]'', mirror_axis_cbox = ''z'', export_cbox = False,
           file_path_line = '''', directory_path = ''''\<rparr>)))
   \<and> fst (build (quiet_host\<lparr>objExists := (\<lambda>n. True)\<rparr>)
          (\<lparr>vert_textfield = ''m.vtx[3]'', mirror_axis_cbox = ''z'', export_cbox = False,
            file_path_line = '''', directory_path = ''''\<rparr>\<lparr>mirror_axis_cbox := ''y''\<rparr>))
     = fst (build (quiet_host\<lparr>objExists := (\<lambda>n. True)\<rparr>)
          \<lparr>vert_textfield = ''m.vtx[3]'', mirror_axis_cbox = ''z'', export_cbox = False,
           file_path_line = '''', directory_path = ''''\<rparr>)"
proof -
  have a: "fst (build_target (quiet_host\<lparr>objExists := (\<lambda>n. True)\<rparr>)
          \<lparr>vert_textfield = ''m.vtx[3]'', mirror_axis_cbox = ''z'', export_cbox = False,
           file_path_line = '''', directory_path = ''''\<rparr>) = Inr (Some ''m.vtx[3]'', Some ''m'')"
    by code_simp
  have b: "command (quiet_host\<lparr>objExists := (\<lambda>n. True)\<rparr>)
        (Cmd ''duplicate'' [S ''m''] [(''name'', S (new_name_of ''m''))]) = None"
    by (simp add: quiet_host_def)
  have n: "new_name_of ''m'' = ''m''"
    by code_simp
  note t = build_always_mirrors_x [of "quiet_host\<lparr>objExists := (\<lambda>n. True)\<rparr>"
      "''y''" "\<lparr>vert_textfield = ''m.vtx[3]'', mirror_axis_cbox = ''z'', export_cbox = False,
           file_path_line = '''', directory_path = ''''\<rparr>"]
  from conjunct2 [OF conjunct2 [OF conjunct2 [OF t]]] a b
  have "Cmd ''setAttr'' [S (new_name_of ''m'' @ ''.sx''), I (- 1)] []
     \<in> set (calls (fst (build (quiet_host\<lparr>objExists := (\<lambda>n. True)\<rparr>)
          \<lparr>vert_textfield = ''m.vtx[3]'', mirror_axis_cbox = ''z'', export_cbox = False,
           file_path_line = '''', directory_path = ''''\<rparr>)))"
    by blast
  then have c: "Cmd ''setAttr'' [S ''m.sx'', I (- 1)] []
     \<in> set (calls (fst (build (quiet_host\<lparr>objExists := (\<lambda>n. True)\<rparr>)
          \<lparr>vert_textfield = ''m.vtx[3]'', mirror_axis_cbox = ''z'', export_cbox = False,
           file_path_line = '''', directory_path = ''''\<rparr>)))"
    by (simp add: n)
  from a b n c conjunct1 [OF t] show ?thesis by blast
qed

end
